theory Spec2Isabelle
  imports Main "HOL-Library.AList"
begin

section \<open>Python values, exceptions and string operations\<close>

text \<open>
  The commands of \<^verbatim>\<open>pylons/commands.py\<close> raise and catch exceptions and pass
  opaque objects around. An exception is a value that carries its message (what
  \<^verbatim>\<open>str(exc)\<close> gives); the classes the code names are constructors of their own,
  every other class is \<open>PyError cls msg\<close>.
\<close>

datatype pyexc =
    BadCommand string
  | ImportError string
  | EOFError string
  | PyError string string

fun str_exc :: "pyexc \<Rightarrow> string" where
  "str_exc (BadCommand m) = m"
| "str_exc (ImportError m) = m"
| "str_exc (EOFError m) = m"
| "str_exc (PyError c m) = m"

fun is_EOFError :: "pyexc \<Rightarrow> bool" where
  "is_EOFError (EOFError m) = True"
| "is_EOFError e = False"

text \<open>
  Objects: \<open>PyObj label t\<close> is an opaque object whose truth value is \<open>t\<close>;
  \<open>TestApp app\<close> is \<^verbatim>\<open>paste.fixture.TestApp(app)\<close>.
\<close>

datatype pyval =
    PyNone
  | PyStr string
  | PyModule string
  | PyObj string bool
  | TestApp pyval

fun truthy :: "pyval \<Rightarrow> bool" where
  "truthy PyNone = False"
| "truthy (PyStr s) = (s \<noteq> [])"
| "truthy (PyModule n) = True"
| "truthy (PyObj l t) = t"
| "truthy (TestApp a) = True"

text \<open>\<^verbatim>\<open>s.replace(a, b)\<close> for one-character \<open>a\<close> and \<open>b\<close>.\<close>

definition replace_char :: "char \<Rightarrow> char \<Rightarrow> string \<Rightarrow> string" where
  "replace_char a b s = map (\<lambda>c. if c = a then b else c) s"

text \<open>\<^verbatim>\<open>s.split(sep)\<close> for a one-character separator: never the empty list.\<close>

fun py_split :: "char \<Rightarrow> string \<Rightarrow> string list" where
  "py_split sep [] = [[]]"
| "py_split sep (c # cs) =
     (if c = sep then [] # py_split sep cs
      else (case py_split sep cs of
              [] \<Rightarrow> [[c]]
            | x # xs \<Rightarrow> (c # x) # xs))"

text \<open>\<^verbatim>\<open>s.lower()\<close> on ASCII.\<close>

definition lower_char :: "char \<Rightarrow> char" where
  "lower_char c =
     (case map_of (zip ''ABCDEFGHIJKLMNOPQRSTUVWXYZ'' ''abcdefghijklmnopqrstuvwxyz'') c of
        Some d \<Rightarrow> d
      | None \<Rightarrow> c)"

definition lower :: "string \<Rightarrow> string" where
  "lower s = map lower_char s"

text \<open>\<^verbatim>\<open>'%-10s' % s\<close>: left-justified in a field of ten characters.\<close>

definition ljust10 :: "string \<Rightarrow> string" where
  "ljust10 s = s @ replicate (10 - length s) CHR '' ''"

text \<open>
  The path separator and \<^verbatim>\<open>os.path.join\<close> of two components, as \<^verbatim>\<open>posixpath\<close>
  has them.
\<close>

definition os_sep :: char where
  "os_sep = CHR ''/''"

definition startswith :: "string \<Rightarrow> char \<Rightarrow> bool" where
  "startswith s c = (case s of [] \<Rightarrow> False | x # xs \<Rightarrow> x = c)"

definition endswith :: "string \<Rightarrow> char \<Rightarrow> bool" where
  "endswith s c = (case rev s of [] \<Rightarrow> False | x # xs \<Rightarrow> x = c)"

definition os_path_join :: "string \<Rightarrow> string \<Rightarrow> string" where
  "os_path_join a b =
     (if startswith b os_sep then b
      else if a = [] \<or> endswith a os_sep then a @ b
      else a @ [os_sep] @ b)"

section \<open>The interpreter and the world the commands act on\<close>

text \<open>
  The interpreter state the commands touch: \<^verbatim>\<open>sys.modules\<close> and \<^verbatim>\<open>sys.path\<close>.
  The builtin \<^verbatim>\<open>__import__\<close> is a collaborator of the commands: a function from the
  name and the interpreter state to the outcome and the state it leaves. The outcome is
  the module, ImportError with its message, or an exception of another class raised
  while the module loads (a class of the interpreter or of the module's own, not
  BadCommand, which \<^verbatim>\<open>paste.script\<close> keeps for its commands).
\<close>

datatype import_result =
    Loaded pyval
  | NoModule string
  | Broken string string

record interp =
  sys_modules :: "(string \<times> pyval) list"
  sys_path :: "string list"

type_synonym importer = "string \<Rightarrow> interp \<Rightarrow> import_result \<times> interp"

text \<open>One call of \<^verbatim>\<open>FileOp.copy_file\<close>, with the template variables it renders with.\<close>

record copy_call =
  template :: string
  dest :: string
  filename :: string
  template_vars :: "(string \<times> string) list"

text \<open>The calls to collaborators with an effect outside the command, in order.\<close>

datatype ext_call =
    Import string
  | CopyFile copy_call
  | Appconfig string string
  | Loadapp string string
  | MakeMap
  | GetRoot pyval

text \<open>
  The console the shell command ends in: IPython's shell with the namespace, or the
  fallback \<^verbatim>\<open>code.InteractiveConsole\<close> with the namespace and the banner.
\<close>

datatype console_launch =
    IPShell "(string \<times> pyval) list"
  | CustomShell "(string \<times> pyval) list" string

fun console_locs :: "console_launch \<Rightarrow> (string \<times> pyval) list" where
  "console_locs (IPShell locs) = locs"
| "console_locs (CustomShell locs banner) = locs"

record world =
  py :: interp
  CONFIG :: "(string \<times> pyval) list list"
  pylons_g :: "pyval list"
  calls :: "ext_call list"
  console :: "console_launch option"

text \<open>\<^verbatim>\<open>__import__(name)\<close> in the world: the importer runs on the interpreter state.\<close>

definition py_import :: "importer \<Rightarrow> string \<Rightarrow> world \<Rightarrow> import_result \<times> world" where
  "py_import imp name w =
     (case imp name (py w) of
        (r, i) \<Rightarrow> (r, w\<lparr>py := i, calls := calls w @ [Import name]\<rparr>))"

text \<open>An import outside any \<^verbatim>\<open>try\<close>: the module, or the exception raised.\<close>

definition import_or_raise :: "importer \<Rightarrow> string \<Rightarrow> world \<Rightarrow> (pyexc + pyval) \<times> world" where
  "import_or_raise imp name w =
     (case py_import imp name w of
        (Loaded m, w1) \<Rightarrow> (Inr m, w1)
      | (NoModule msg, w1) \<Rightarrow> (Inl (ImportError msg), w1)
      | (Broken cls msg, w1) \<Rightarrow> (Inl (PyError cls msg), w1))"

text \<open>
  An importer for the examples: a module already in \<^verbatim>\<open>sys.modules\<close> is returned as it
  is, a module found among \<open>avail\<close> is loaded and entered into \<^verbatim>\<open>sys.modules\<close>, and any
  other name raises ImportError.
\<close>

definition caching_import :: "(string \<times> pyval) list \<Rightarrow> importer" where
  "caching_import avail name i =
     (case map_of (sys_modules i) name of
        Some m \<Rightarrow> (Loaded m, i)
      | None \<Rightarrow>
          (case map_of avail name of
             None \<Rightarrow> (NoModule (''No module named '' @ name), i)
           | Some m \<Rightarrow> (Loaded m, i\<lparr>sys_modules := (name, m) # sys_modules i\<rparr>)))"

definition interp0 :: interp where
  "interp0 = \<lparr>sys_modules = [(''sys'', PyModule ''sys'')], sys_path = [''/usr/lib/python'']\<rparr>"

definition world0 :: world where
  "world0 = \<lparr>py = interp0, CONFIG = [], pylons_g = [], calls = [], console = None\<rparr>"

section \<open>validate_name\<close>

text \<open>
  The message of the collision failure: the format string with the name four times;
  \<open>sq\<close> is the single quote.
\<close>

definition sq :: string where
  "sq = [CHR 0x27]"

definition collision_message :: "string \<Rightarrow> string" where
  "collision_message name =
     ''\<newline>\<newline>A module named '' @ sq @ name @ sq @ '' is already present in your '' @
     ''PYTHON_PATH.\<newline> Choosing a conflicting name will likely cause'' @
     '' import problems in\<newline> your controller at some point. It's '' @
     ''suggested that you choose an alternate\<newline>name, and if you'd '' @
     ''like that name to be accessible as '' @ sq @ name @ sq @ '', add a route\<newline>'' @
     ''to your projects config/routing.py file similar to:\<newline>'' @
     ''  map.connect('' @ sq @ name @ sq @ '', controller='my_'' @ name @ sq @ '')''"

text \<open>
  \<^verbatim>\<open>validate_name(name)\<close>: BadCommand for an empty name; otherwise one import attempt.
  A successful import raises BadCommand with the collision message, which the
  \<^verbatim>\<open>except ImportError\<close> does not catch; ImportError is swallowed and True returned; any
  other exception of the import propagates.
\<close>

definition validate_name :: "importer \<Rightarrow> string \<Rightarrow> world \<Rightarrow> (pyexc + bool) \<times> world" where
  "validate_name imp name w =
     (if name = [] then (Inl (BadCommand ''Please give the name of a controller.''), w)
      else (case py_import imp name w of
              (Loaded m, w1) \<Rightarrow> (Inl (BadCommand (collision_message name)), w1)
            | (NoModule msg, w1) \<Rightarrow> (Inr True, w1)
            | (Broken cls msg, w1) \<Rightarrow> (Inl (PyError cls msg), w1)))"

section \<open>Sequencing calls that may raise\<close>

text \<open>
  A statement that raises ends the sequence with the exception and the world as it is
  then; otherwise the next statement runs on the value and the world it left.
\<close>

definition and_then ::
  "(pyexc + 'a) \<times> world \<Rightarrow> ('a \<Rightarrow> world \<Rightarrow> (pyexc + 'b) \<times> world) \<Rightarrow> (pyexc + 'b) \<times> world" where
  "and_then r f = (case r of (Inl e, w) \<Rightarrow> (Inl e, w) | (Inr x, w) \<Rightarrow> f x w)"

definition log_call :: "ext_call \<Rightarrow> world \<Rightarrow> world" where
  "log_call c w = w\<lparr>calls := calls w @ [c]\<rparr>"

section \<open>ControllerCommand.command\<close>

text \<open>
  The collaborators of the controller command: the \<^verbatim>\<open>FileOp\<close> constructor (which may
  raise) and the template variables it starts with, \<^verbatim>\<open>parse_path_name_args\<close>,
  \<^verbatim>\<open>pylons.util.class_name_from_module_name\<close>, and whether a \<^verbatim>\<open>copy_file\<close> raises.
\<close>

record controller_ext =
  new_FileOp :: "pyexc option"
  template_vars0 :: "(string \<times> string) list"
  parse_path_name_args :: "string \<Rightarrow> pyexc + (string \<times> string)"
  class_name_from_module_name :: "string \<Rightarrow> string"
  copy_file_raises :: "copy_call \<Rightarrow> pyexc option"

definition copy_file :: "controller_ext \<Rightarrow> copy_call \<Rightarrow> world \<Rightarrow> (pyexc + unit) \<times> world" where
  "copy_file ext c w =
     (case copy_file_raises ext c of
        Some e \<Rightarrow> (Inl e, log_call (CopyFile c) w)
      | None \<Rightarrow> (Inr (), log_call (CopyFile c) w))"

text \<open>\<^verbatim>\<open>self.args[0]\<close> raises IndexError on an empty list.\<close>

definition args0 :: "string list \<Rightarrow> pyexc + string" where
  "args0 args =
     (case args of
        [] \<Rightarrow> Inl (PyError ''IndexError'' ''list index out of range'')
      | a # as \<Rightarrow> Inr a)"

text \<open>
  The inner \<^verbatim>\<open>try\<close>: any exception of \<^verbatim>\<open>parse_path_name_args(self.args[0])\<close> becomes
  BadCommand('No egg_info directory was found').
\<close>

definition parse_args :: "controller_ext \<Rightarrow> string list \<Rightarrow> pyexc + (string \<times> string)" where
  "parse_args ext args =
     (case args0 args of
        Inl e \<Rightarrow> Inl (BadCommand ''No egg_info directory was found'')
      | Inr a \<Rightarrow>
          (case parse_path_name_args ext a of
             Inl e \<Rightarrow> Inl (BadCommand ''No egg_info directory was found'')
           | Inr nd \<Rightarrow> Inr nd))"

text \<open>
  \<^verbatim>\<open>testname\<close>: the joined path, given a leading separator if it has none, every
  separator replaced by an underscore, and the first character dropped.
\<close>

definition testname_of :: "string \<Rightarrow> string \<Rightarrow> string" where
  "testname_of directory name =
     (let fullname = os_path_join directory name;
          fullname = (if \<not> startswith fullname os_sep then [os_sep] @ fullname else fullname)
      in drop 1 (replace_char os_sep CHR ''_'' fullname))"

text \<open>
  The statements after the validation. \<^verbatim>\<open>template_vars.update\<close> sets \<^verbatim>\<open>name\<close> to
  the class name of the last segment of the name and \<^verbatim>\<open>fname\<close> to the joined path;
  then come the arguments of the two \<^verbatim>\<open>copy_file\<close> calls, and the calls.
\<close>

definition updated_vars :: "controller_ext \<Rightarrow> string \<Rightarrow> string \<Rightarrow> (string \<times> string) list" where
  "updated_vars ext name directory =
     (let controller_name = class_name_from_module_name ext (last (py_split CHR ''/'' name))
      in AList.update ''fname'' (os_path_join directory name)
           (AList.update ''name'' controller_name (template_vars0 ext)))"

definition controller_copy :: "controller_ext \<Rightarrow> string \<Rightarrow> string \<Rightarrow> copy_call" where
  "controller_copy ext name directory =
     \<lparr>template = ''controller.py_tmpl'',
      dest = os_path_join ''controllers'' directory,
      filename = name,
      template_vars = updated_vars ext name directory\<rparr>"

definition test_copy :: "controller_ext \<Rightarrow> string \<Rightarrow> string \<Rightarrow> copy_call" where
  "test_copy ext name directory =
     \<lparr>template = ''test_controller.py_tmpl'',
      dest = os_path_join ''tests'' ''functional'',
      filename = ''test_'' @ testname_of directory name,
      template_vars = updated_vars ext name directory\<rparr>"

definition render :: "controller_ext \<Rightarrow> bool \<Rightarrow> string \<Rightarrow> string \<Rightarrow> world \<Rightarrow> (pyexc + unit) \<times> world" where
  "render ext no_test name directory w =
     and_then (copy_file ext (controller_copy ext name directory) w)
       (\<lambda>u w1.
          if \<not> no_test then copy_file ext (test_copy ext name directory) w1
          else (Inr (), w1))"

text \<open>The body of the outer \<^verbatim>\<open>try\<close>.\<close>

definition ControllerCommand_try ::
  "controller_ext \<Rightarrow> importer \<Rightarrow> string list \<Rightarrow> bool \<Rightarrow> world \<Rightarrow> (pyexc + unit) \<times> world" where
  "ControllerCommand_try ext imp args no_test w =
     (case new_FileOp ext of
        Some e \<Rightarrow> (Inl e, w)
      | None \<Rightarrow>
          (case parse_args ext args of
             Inl e \<Rightarrow> (Inl e, w)
           | Inr (name0, directory) \<Rightarrow>
               (let name = replace_char CHR ''-'' CHR ''_'' name0
                in and_then (validate_name imp name w)
                     (\<lambda>ok w1. render ext no_test name directory w1))))"

text \<open>
  The command: the bare \<^verbatim>\<open>except:\<close> catches every exception of the body, BadCommand
  included, and raises BadCommand('An unknown error ocurred, %s' % msg).
\<close>

definition ControllerCommand_command ::
  "controller_ext \<Rightarrow> importer \<Rightarrow> string list \<Rightarrow> bool \<Rightarrow> world \<Rightarrow> (pyexc + unit) \<times> world" where
  "ControllerCommand_command ext imp args no_test w =
     (case ControllerCommand_try ext imp args no_test w of
        (Inl e, w1) \<Rightarrow> (Inl (BadCommand (''An unknown error ocurred, '' @ str_exc e)), w1)
      | (Inr u, w1) \<Rightarrow> (Inr u, w1))"

text \<open>The copies a world's log holds, and collaborators for the examples.\<close>

fun copies :: "ext_call list \<Rightarrow> copy_call list" where
  "copies [] = []"
| "copies (CopyFile c # cs) = c # copies cs"
| "copies (x # cs) = copies cs"

definition parse0 :: "string \<Rightarrow> pyexc + (string \<times> string)" where
  "parse0 a =
     (case rev (py_split CHR ''/'' a) of
        [] \<Rightarrow> Inr (a, [])
      | [n] \<Rightarrow> Inr (n, [])
      | n # d # ds \<Rightarrow> Inr (n, foldl os_path_join [] (rev (d # ds))))"

definition cext0 :: controller_ext where
  "cext0 =
     \<lparr>new_FileOp = None,
      template_vars0 = [],
      parse_path_name_args = parse0,
      class_name_from_module_name = (\<lambda>s. s),
      copy_file_raises = (\<lambda>c. None)\<rparr>"

section \<open>ShellCommand.command\<close>

text \<open>
  The collaborators of the shell command: \<^verbatim>\<open>os.path.isfile\<close>, the parser's usage
  text, \<^verbatim>\<open>os.getcwd()\<close>, \<^verbatim>\<open>appconfig\<close> and \<^verbatim>\<open>loadapp\<close> of \<^verbatim>\<open>paste.deploy\<close>,
  \<^verbatim>\<open>getattr(module, 'make_map')\<close> (AttributeError, or the factory as the result its call
  gives), the probe \<^verbatim>\<open>test_app.get('/').g\<close>, and \<^verbatim>\<open>sys.version\<close>.
\<close>

record shell_ext =
  isfile :: "string \<Rightarrow> bool"
  get_usage :: string
  getcwd :: string
  appconfig :: "string \<Rightarrow> string \<Rightarrow> pyexc + pyval"
  loadapp :: "string \<Rightarrow> string \<Rightarrow> pyexc + pyval"
  getattr_make_map :: "pyval \<Rightarrow> pyexc + (pyexc + pyval)"
  get_root_g :: "pyval \<Rightarrow> pyexc + pyval"
  sys_version :: string

text \<open>Lines 139 to 148: the config file, or the usage error.\<close>

definition ShellCommand_config_file :: "shell_ext \<Rightarrow> string list \<Rightarrow> pyexc + string" where
  "ShellCommand_config_file ext args =
     (if length args = 0 then
        (if \<not> isfile ext ''development.ini'' then
           Inl (BadCommand (get_usage ext @ ''Error: CONFIG_FILE not found at: .'' @ [os_sep] @
                  ''development.ini'' @ ''\<newline>'' @ ''Please specify a CONFIG_FILE''))
         else Inr ''development.ini'')
      else args0 args)"

text \<open>\<^verbatim>\<open>sys.modules[name]\<close> raises KeyError for a name that is not loaded.\<close>

definition sys_modules_get :: "string \<Rightarrow> world \<Rightarrow> (pyexc + pyval) \<times> world" where
  "sys_modules_get name w =
     (case map_of (sys_modules (py w)) name of
        None \<Rightarrow> (Inl (PyError ''KeyError'' name), w)
      | Some m \<Rightarrow> (Inr m, w))"

text \<open>\<^verbatim>\<open>for pack in packs: __import__(pack)\<close>.\<close>

fun import_all :: "importer \<Rightarrow> string list \<Rightarrow> world \<Rightarrow> (pyexc + unit) \<times> world" where
  "import_all imp [] w = (Inr (), w)"
| "import_all imp (pack # packs) w =
     and_then (import_or_raise imp pack w) (\<lambda>m w1. import_all imp packs w1)"

text \<open>What lines 150 to 182 leave in local variables for the rest of the command.\<close>

record shell_objs =
  models_package :: string
  helpers_package :: string
  mapper :: pyval
  wsgiapp :: pyval
  test_app :: pyval
  global_obj :: pyval

text \<open>
  The probe: \<^verbatim>\<open>global_obj = None\<close>, then \<^verbatim>\<open>test_app.get('/').g\<close> under a bare
  \<^verbatim>\<open>except: pass\<close>.
\<close>

definition probe_g :: "shell_ext \<Rightarrow> pyval \<Rightarrow> world \<Rightarrow> pyval \<times> world" where
  "probe_g ext app w =
     (case get_root_g ext app of
        Inl e \<Rightarrow> (PyNone, log_call (GetRoot app) w)
      | Inr g \<Rightarrow> (g, log_call (GetRoot app) w))"

text \<open>Lines 150 to 182: configuration, application, imports, mapper, test client, probe.\<close>

definition ShellCommand_load ::
  "shell_ext \<Rightarrow> importer \<Rightarrow> string \<Rightarrow> world \<Rightarrow> (pyexc + shell_objs) \<times> world" where
  "ShellCommand_load ext imp config_file w =
     (let config_name = ''config:'' @ config_file;
          here_dir = getcwd ext;
          pkg_name = lower (last (py_split os_sep here_dir))
      in and_then (appconfig ext config_name here_dir, log_call (Appconfig config_name here_dir) w)
           (\<lambda>app_conf w1.
              let conf = [(''app'', app_conf), (''app_conf'', app_conf)];
                  w2 = w1\<lparr>CONFIG := conf # CONFIG w1\<rparr>;
                  w3 = w2\<lparr>py := (py w2)\<lparr>sys_path := here_dir # sys_path (py w2)\<rparr>\<rparr>
              in and_then (loadapp ext config_name here_dir, log_call (Loadapp config_name here_dir) w3)
                   (\<lambda>wsgi w4.
                      let routing_package = pkg_name @ ''.config.routing'';
                          models = pkg_name @ ''.models'';
                          helpers = pkg_name @ ''.lib.helpers''
                      in and_then (import_all imp [routing_package, models, helpers] w4)
                           (\<lambda>u w5.
                              and_then (sys_modules_get routing_package w5)
                                (\<lambda>routing w6.
                                   and_then (getattr_make_map ext routing, w6)
                                     (\<lambda>make_map w7.
                                        and_then (make_map, log_call MakeMap w7)
                                          (\<lambda>mp w8.
                                             case probe_g ext (TestApp wsgi) w8 of
                                               (g, w9) \<Rightarrow>
                                                 (Inr \<lparr>models_package = models,
                                                       helpers_package = helpers,
                                                       mapper = mp,
                                                       wsgiapp = wsgi,
                                                       test_app = TestApp wsgi,
                                                       global_obj = g\<rparr>, w9))))))))"

text \<open>
  Lines 184 to 195: \<^verbatim>\<open>locs.update(dict(...))\<close>, whose arguments look the models and
  helpers modules up, and the binding and push of a truthy \<^verbatim>\<open>global_obj\<close>.
\<close>

definition ShellCommand_namespace ::
  "shell_objs \<Rightarrow> world \<Rightarrow> (pyexc + (string \<times> pyval) list) \<times> world" where
  "ShellCommand_namespace objs w =
     (let locs = [(''__name__'', PyStr ''pylons-admin'')]
      in and_then (sys_modules_get (models_package objs) w)
           (\<lambda>model w1.
              and_then (sys_modules_get (helpers_package objs) w1)
                (\<lambda>h w2.
                   let locs = AList.update ''h'' h
                               (AList.update ''app'' (test_app objs)
                                 (AList.update ''wsgiapp'' (wsgiapp objs)
                                   (AList.update ''mapper'' (mapper objs)
                                     (AList.update ''model'' model locs))))
                   in if truthy (global_obj objs) then
                        (Inr (AList.update ''g'' (global_obj objs) locs),
                         w2\<lparr>pylons_g := global_obj objs # pylons_g w2\<rparr>)
                      else (Inr locs, w2))))"

text \<open>Lines 197 to 207: the banner.\<close>

definition banner_line :: "string \<Rightarrow> string \<Rightarrow> string" where
  "banner_line k d = ''  '' @ ljust10 k @ '' -  '' @ d @ ''\<newline>''"

definition ShellCommand_banner :: "shell_ext \<Rightarrow> shell_objs \<Rightarrow> string" where
  "ShellCommand_banner ext objs =
     ''Pylons Interactive Shell\<newline>Python '' @ sys_version ext @ ''\<newline>\<newline>'' @
     ''Additional Objects:\<newline>'' @
     banner_line ''mapper'' ''Routes mapper object'' @
     banner_line ''h'' ''Helper object'' @
     (if truthy (global_obj objs) then banner_line ''g'' ''Globals object'' else []) @
     banner_line ''model'' ''Models from models package'' @
     banner_line ''wsgiapp'' ''This projects WSGI App instance'' @
     banner_line ''app'' ''paste.fixture wrapped around wsgiapp''"

text \<open>
  Lines 208 to 247: IPython's shell when \<^verbatim>\<open>import IPython\<close> succeeds; on ImportError
  the fallback console, after \<^verbatim>\<open>import code\<close> and an \<^verbatim>\<open>import readline\<close> whose
  ImportError is ignored. The interactive loop itself is the end of the command.
\<close>

definition ShellCommand_console ::
  "importer \<Rightarrow> (string \<times> pyval) list \<Rightarrow> string \<Rightarrow> world \<Rightarrow> (pyexc + unit) \<times> world" where
  "ShellCommand_console imp locs banner w =
     (case py_import imp ''IPython'' w of
        (Loaded m, w1) \<Rightarrow> (Inr (), w1\<lparr>console := Some (IPShell locs)\<rparr>)
      | (NoModule msg, w1) \<Rightarrow>
          and_then (import_or_raise imp ''code'' w1)
            (\<lambda>m w2.
               case py_import imp ''readline'' w2 of
                 (Loaded r, w3) \<Rightarrow> (Inr (), w3\<lparr>console := Some (CustomShell locs banner)\<rparr>)
               | (NoModule msg2, w3) \<Rightarrow>
                   (Inr (), w3\<lparr>console := Some (CustomShell locs banner)\<rparr>)
               | (Broken cls m2, w3) \<Rightarrow> (Inl (PyError cls m2), w3))
      | (Broken cls m1, w1) \<Rightarrow> (Inl (PyError cls m1), w1))"

definition ShellCommand_command ::
  "shell_ext \<Rightarrow> importer \<Rightarrow> string list \<Rightarrow> world \<Rightarrow> (pyexc + unit) \<times> world" where
  "ShellCommand_command ext imp args w =
     (case ShellCommand_config_file ext args of
        Inl e \<Rightarrow> (Inl e, w)
      | Inr config_file \<Rightarrow>
          and_then (ShellCommand_load ext imp config_file w)
            (\<lambda>objs w1.
               and_then (ShellCommand_namespace objs w1)
                 (\<lambda>locs w2. ShellCommand_console imp locs (ShellCommand_banner ext objs) w2)))"

section \<open>The consoles' raw_input\<close>

text \<open>
  Both overrides call the parent's \<^verbatim>\<open>raw_input\<close> and, on EOFError, execute
  \<^verbatim>\<open>raise EOFError\<close>: a new EOFError without arguments. The parent is a parameter: what
  it returns or raises for the arguments.
\<close>

definition CustomIPShell_raw_input :: "('a \<Rightarrow> pyexc + string) \<Rightarrow> 'a \<Rightarrow> pyexc + string" where
  "CustomIPShell_raw_input InteractiveShell_raw_input a =
     (case InteractiveShell_raw_input a of
        Inr line \<Rightarrow> Inr line
      | Inl (EOFError m) \<Rightarrow> Inl (EOFError [])
      | Inl e \<Rightarrow> Inl e)"

definition CustomShell_raw_input :: "('a \<Rightarrow> pyexc + string) \<Rightarrow> 'a \<Rightarrow> pyexc + string" where
  "CustomShell_raw_input InteractiveConsole_raw_input a =
     (case InteractiveConsole_raw_input a of
        Inr line \<Rightarrow> Inr line
      | Inl (EOFError m) \<Rightarrow> Inl (EOFError [])
      | Inl e \<Rightarrow> Inl e)"

text \<open>Collaborators of the shell command for the examples.\<close>

definition sext0 :: shell_ext where
  "sext0 =
     \<lparr>isfile = (\<lambda>f. False),
      get_usage = ''usage: paster shell [CONFIG_FILE]\<newline>'',
      getcwd = ''/home/dev/MyProj'',
      appconfig = (\<lambda>n d. Inr (PyObj ''app_conf'' True)),
      loadapp = (\<lambda>n d. Inr (PyObj ''wsgiapp'' True)),
      getattr_make_map = (\<lambda>m. Inr (Inr (PyObj ''mapper'' True))),
      get_root_g = (\<lambda>a. Inr (PyObj ''g'' True)),
      sys_version = ''2.4''\<rparr>"

definition project_modules :: "(string \<times> pyval) list" where
  "project_modules =
     [(''myproj.config.routing'', PyModule ''myproj.config.routing''),
      (''myproj.models'', PyModule ''myproj.models''),
      (''myproj.lib.helpers'', PyModule ''myproj.lib.helpers''),
      (''code'', PyModule ''code'')]"

section \<open>Properties of validate_name\<close>

lemma py_import_fst: "fst (py_import imp name w) = fst (imp name (py w))"
  by (simp add: py_import_def split: prod.splits)

lemma py_import_py: "py (snd (py_import imp name w)) = snd (imp name (py w))"
  by (simp add: py_import_def split: prod.splits)

lemma py_import_calls: "calls (snd (py_import imp name w)) = calls w @ [Import name]"
  by (simp add: py_import_def split: prod.splits)

lemma py_import_frame:
  "CONFIG (snd (py_import imp name w)) = CONFIG w"
  "pylons_g (snd (py_import imp name w)) = pylons_g w"
  "console (snd (py_import imp name w)) = console w"
  by (simp_all add: py_import_def split: prod.splits)

text \<open>
  C1. \<^verbatim>\<open>validate_name\<close> raises the usage error BadCommand if and only if the name is
  empty or the import of the name succeeds, and it returns True for every non-empty name
  whose import raises ImportError.
\<close>

theorem validate_name_usage_error_iff:
  "((\<exists>m. fst (validate_name imp name w) = Inl (BadCommand m)) \<longleftrightarrow>
      (name = [] \<or> (\<exists>md. fst (imp name (py w)) = Loaded md))) \<and>
   (name \<noteq> [] \<and> (\<exists>msg. fst (imp name (py w)) = NoModule msg) \<longrightarrow>
      fst (validate_name imp name w) = Inr True)"
proof (cases "name = []")
  case True
  then show ?thesis by (simp add: validate_name_def)
next
  case False
  obtain r w1 where p: "py_import imp name w = (r, w1)" by (cases "py_import imp name w")
  then have r: "fst (imp name (py w)) = r" using py_import_fst [of imp name w] by simp
  show ?thesis using False p r
    by (cases r) (simp_all add: validate_name_def)
qed

theorem validate_name_usage_error_iff_witness:
  "fst (validate_name (caching_import []) ''trackback'' world0) = Inr True \<and>
   (\<exists>m. fst (validate_name (caching_import [(''os'', PyModule ''os'')]) ''os'' world0) = Inl (BadCommand m)) \<and>
   (\<exists>m. fst (validate_name (caching_import []) [] world0) = Inl (BadCommand m))"
  using validate_name_usage_error_iff [of "caching_import []" "''trackback''" world0]
    validate_name_usage_error_iff [of "caching_import [(''os'', PyModule ''os'')]" "''os''" world0]
    validate_name_usage_error_iff [of "caching_import []" "[]" world0]
  by (simp add: caching_import_def world0_def interp0_def)

text \<open>
  C7. For a name whose import succeeds, the message of the failure holds the name, then
  the name again, and ends with the routing snippet
  \<^verbatim>\<open>map.connect('<name>', controller='my_<name>')\<close>, where the name stands once as the
  route and once inside the alias.
\<close>

theorem validate_name_collision_message:
  assumes "name \<noteq> []" and "fst (imp name (py w)) = Loaded md"
  shows "\<exists>a b. fst (validate_name imp name w) =
           Inl (BadCommand (a @ name @ b @
             ''map.connect('' @ sq @ name @ sq @ '', controller='' @ sq @ ''my_'' @ name @ sq @ '')''))"
proof -
  obtain r w1 where p: "py_import imp name w = (r, w1)" by (cases "py_import imp name w")
  then have r: "r = Loaded md" using py_import_fst [of imp name w] assms(2) by simp
  have "fst (validate_name imp name w) = Inl (BadCommand (collision_message name))"
    using assms(1) p r by (simp add: validate_name_def)
  moreover have "collision_message name =
      (''\<newline>\<newline>A module named '' @ sq) @ name @
      (sq @ '' is already present in your '' @
       ''PYTHON_PATH.\<newline> Choosing a conflicting name will likely cause'' @
       '' import problems in\<newline> your controller at some point. It's '' @
       ''suggested that you choose an alternate\<newline>name, and if you'd '' @
       ''like that name to be accessible as '' @ sq @ name @ sq @ '', add a route\<newline>'' @
       ''to your projects config/routing.py file similar to:\<newline>'' @ ''  '') @
      ''map.connect('' @ sq @ name @ sq @ '', controller='' @ sq @ ''my_'' @ name @ sq @ '')''"
    by (simp add: collision_message_def sq_def)
  ultimately show ?thesis by metis
qed

theorem validate_name_collision_message_witness:
  "\<exists>a b. fst (validate_name (caching_import [(''os'', PyModule ''os'')]) ''os'' world0) =
           Inl (BadCommand (a @ ''os'' @ b @ ''map.connect('os', controller='my_os')''))"
proof -
  have "fst (caching_import [(''os'', PyModule ''os'')] ''os'' (py world0)) = Loaded (PyModule ''os'')"
    by (simp add: caching_import_def world0_def interp0_def)
  from validate_name_collision_message
    [of "''os''" "caching_import [(''os'', PyModule ''os'')]" world0 "PyModule ''os''"] this
  show ?thesis
    by (simp add: sq_def)
qed

text \<open>
  C8, as amended. \<^verbatim>\<open>validate_name\<close> adds no state of its own and undoes nothing: for
  an empty name no import is attempted and the interpreter state is as before;
  otherwise the interpreter state after the call, whether it returns or raises, is the
  state the one import attempt left. The configuration stack, the \<^verbatim>\<open>pylons.g\<close> stack
  and the console are untouched.
\<close>

theorem validate_name_keeps_import_state:
  "py (snd (validate_name imp name w)) =
     (if name = [] then py w else snd (imp name (py w))) \<and>
   CONFIG (snd (validate_name imp name w)) = CONFIG w \<and>
   pylons_g (snd (validate_name imp name w)) = pylons_g w \<and>
   console (snd (validate_name imp name w)) = console w"
proof (cases "name = []")
  case True
  then show ?thesis by (simp add: validate_name_def)
next
  case False
  obtain r w1 where p: "py_import imp name w = (r, w1)" by (cases "py_import imp name w")
  have "snd (validate_name imp name w) = w1"
    using False p by (cases r) (simp_all add: validate_name_def)
  then show ?thesis
    using False p py_import_py [of imp name w] py_import_frame [of imp name w] by simp
qed

theorem validate_name_keeps_import_state_witness:
  "py (snd (validate_name (caching_import []) ''trackback'' world0)) = py world0 \<and>
   py (snd (validate_name (caching_import []) [] world0)) = py world0 \<and>
   sys_modules (py (snd (validate_name
      (caching_import [(''trackback'', PyModule ''trackback'')]) ''trackback'' world0))) =
     (''trackback'', PyModule ''trackback'') # sys_modules (py world0)"
  using validate_name_keeps_import_state [of "caching_import []" "''trackback''" world0]
    validate_name_keeps_import_state [of "caching_import []" "[]" world0]
    validate_name_keeps_import_state
      [of "caching_import [(''trackback'', PyModule ''trackback'')]" "''trackback''" world0]
  by (simp add: caching_import_def world0_def interp0_def)

text \<open>
  C8 as stated fails: with a module \<^verbatim>\<open>trackback\<close> on the path and not yet loaded,
  the call raises the collision failure and leaves the module in \<^verbatim>\<open>sys.modules\<close>.
\<close>

theorem validate_name_retains_module:
  "map_of (sys_modules (py world0)) ''trackback'' = None \<and>
   fst (validate_name (caching_import [(''trackback'', PyModule ''trackback'')]) ''trackback'' world0)
     = Inl (BadCommand (collision_message ''trackback'')) \<and>
   map_of (sys_modules (py (snd (validate_name
       (caching_import [(''trackback'', PyModule ''trackback'')]) ''trackback'' world0)))) ''trackback''
     = Some (PyModule ''trackback'') \<and>
   py (snd (validate_name
       (caching_import [(''trackback'', PyModule ''trackback'')]) ''trackback'' world0)) \<noteq> py world0"
  by (simp add: validate_name_def py_import_def caching_import_def world0_def interp0_def)

section \<open>Properties of the controller command\<close>

lemma copies_append: "copies (xs @ ys) = copies xs @ copies ys"
  by (induction xs rule: copies.induct) simp_all

lemma validate_name_calls:
  "calls (snd (validate_name imp name w)) = calls w @ (if name = [] then [] else [Import name])"
proof (cases "name = []")
  case True
  then show ?thesis by (simp add: validate_name_def)
next
  case False
  obtain r w1 where p: "py_import imp name w = (r, w1)" by (cases "py_import imp name w")
  have "snd (validate_name imp name w) = w1"
    using False p by (cases r) (simp_all add: validate_name_def)
  then show ?thesis using False p py_import_calls [of imp name w] by simp
qed

lemma validate_name_copies:
  "copies (calls (snd (validate_name imp name w))) = copies (calls w)"
  by (simp add: validate_name_calls copies_append)

lemma copy_file_calls: "calls (snd (copy_file ext c w)) = calls w @ [CopyFile c]"
  by (simp add: copy_file_def log_call_def split: option.splits)

lemma copy_file_fst:
  "fst (copy_file ext c w) = (case copy_file_raises ext c of Some e \<Rightarrow> Inl e | None \<Rightarrow> Inr ())"
  by (simp add: copy_file_def split: option.splits)

lemma and_then_cases:
  "and_then r f = (case fst r of Inl e \<Rightarrow> (Inl e, snd r) | Inr x \<Rightarrow> f x (snd r))"
  by (cases r) (simp add: and_then_def split: sum.splits)

lemma render_no_test_copies:
  "copies (calls (snd (render ext True name directory w))) =
     copies (calls w) @ [controller_copy ext name directory]"
  unfolding render_def and_then_cases
  by (simp add: copy_file_calls copies_append split: sum.splits)

lemma try_cases:
  "(\<exists>e. ControllerCommand_try ext imp args no_test w = (Inl e, w)) \<or>
   (\<exists>e name. ControllerCommand_try ext imp args no_test w = (Inl e, snd (validate_name imp name w))) \<or>
   (\<exists>name0 directory. parse_args ext args = Inr (name0, directory) \<and>
      ControllerCommand_try ext imp args no_test w =
        render ext no_test (replace_char CHR ''-'' CHR ''_'' name0) directory
          (snd (validate_name imp (replace_char CHR ''-'' CHR ''_'' name0) w)))"
proof (cases "new_FileOp ext")
  case (Some e)
  then show ?thesis by (simp add: ControllerCommand_try_def)
next
  case None
  show ?thesis
  proof (cases "parse_args ext args")
    case (Inl e)
    then show ?thesis using None by (simp add: ControllerCommand_try_def)
  next
    case (Inr nd)
    obtain name0 directory where nd: "nd = (name0, directory)" by (cases nd)
    define name where "name = replace_char CHR ''-'' CHR ''_'' name0"
    have t: "ControllerCommand_try ext imp args no_test w =
        and_then (validate_name imp name w) (\<lambda>ok w1. render ext no_test name directory w1)"
      using None Inr nd by (simp add: ControllerCommand_try_def name_def Let_def)
    show ?thesis
    proof (cases "fst (validate_name imp name w)")
      case (Inl e)
      then have "ControllerCommand_try ext imp args no_test w = (Inl e, snd (validate_name imp name w))"
        unfolding t and_then_cases by simp
      then show ?thesis by blast
    next
      case (Inr ok)
      then have "ControllerCommand_try ext imp args no_test w =
          render ext no_test name directory (snd (validate_name imp name w))"
        unfolding t and_then_cases by simp
      then show ?thesis using Inr nd \<open>parse_args ext args = Inr nd\<close> unfolding name_def by blast
    qed
  qed
qed


lemma command_snd:
  "snd (ControllerCommand_command ext imp args no_test w) =
     snd (ControllerCommand_try ext imp args no_test w)"
  by (simp add: ControllerCommand_command_def split: prod.splits sum.splits)

lemma command_fst:
  "fst (ControllerCommand_command ext imp args no_test w) =
     (case fst (ControllerCommand_try ext imp args no_test w) of
        Inl e \<Rightarrow> Inl (BadCommand (''An unknown error ocurred, '' @ str_exc e))
      | Inr u \<Rightarrow> Inr u)"
  by (simp add: ControllerCommand_command_def split: prod.splits sum.splits)

lemmas controller_eval =
  ControllerCommand_command_def ControllerCommand_try_def cext0_def parse_args_def
  args0_def parse0_def validate_name_def py_import_def caching_import_def world0_def interp0_def
  replace_char_def and_then_def render_def copy_file_def log_call_def controller_copy_def
  test_copy_def testname_of_def os_path_join_def startswith_def endswith_def os_sep_def Let_def

text \<open>
  C5. With \<^verbatim>\<open>--no-test\<close> set, whatever the arguments and the collaborators do, the
  command adds at most one \<^verbatim>\<open>copy_file\<close> call to the log, every call it adds renders
  the controller template (so none renders the test template), and a command that
  succeeds has made exactly one.
\<close>

theorem no_test_renders_only_controller:
  "\<exists>new. copies (calls (snd (ControllerCommand_command ext imp args True w))) =
            copies (calls w) @ new \<and>
         length new \<le> 1 \<and>
         (\<forall>c \<in> set new. template c = ''controller.py_tmpl'') \<and>
         (fst (ControllerCommand_command ext imp args True w) = Inr () \<longrightarrow> length new = 1)"
proof -
  let ?t = "ControllerCommand_try ext imp args True w"
  have "\<exists>new. copies (calls (snd ?t)) = copies (calls w) @ new \<and> length new \<le> 1 \<and>
         (\<forall>c \<in> set new. template c = ''controller.py_tmpl'') \<and>
         (fst ?t = Inr () \<longrightarrow> length new = 1)"
    using try_cases [of ext imp args True w]
  proof (elim disjE exE conjE)
    fix e assume "?t = (Inl e, w)"
    then show ?thesis by simp
  next
    fix e name assume "?t = (Inl e, snd (validate_name imp name w))"
    then show ?thesis by (simp add: validate_name_copies)
  next
    fix name0 directory
    assume "?t = render ext True (replace_char CHR ''-'' CHR ''_'' name0) directory
          (snd (validate_name imp (replace_char CHR ''-'' CHR ''_'' name0) w))"
    then show ?thesis
      by (simp add: render_no_test_copies validate_name_copies controller_copy_def)
  qed
  then obtain new where n: "copies (calls (snd ?t)) = copies (calls w) @ new" "length new \<le> 1"
      "\<forall>c \<in> set new. template c = ''controller.py_tmpl''" "fst ?t = Inr () \<longrightarrow> length new = 1"
    by blast
  have "fst (ControllerCommand_command ext imp args True w) = Inr () \<longrightarrow> fst ?t = Inr ()"
    by (simp add: command_fst split: sum.splits)
  with n show ?thesis unfolding command_snd by blast
qed

theorem no_test_renders_only_controller_witness:
  "map (\<lambda>c. (template c, dest c, filename c))
     (copies (calls (snd (ControllerCommand_command cext0 (caching_import [])
        [''admin/trackback''] True world0)))) =
     [(''controller.py_tmpl'', ''controllers/admin'', ''trackback'')] \<and>
   fst (ControllerCommand_command cext0 (caching_import []) [''admin/trackback''] True world0) = Inr ()"
proof -
  have f: "fst (ControllerCommand_command cext0 (caching_import []) [''admin/trackback''] True world0) = Inr ()"
    by (simp add: controller_eval)
  have c0: "copies (calls world0) = []" by (simp add: world0_def)
  from no_test_renders_only_controller [of cext0 "caching_import []" "[''admin/trackback'']" world0]
  obtain new where n: "copies (calls (snd (ControllerCommand_command cext0 (caching_import [])
        [''admin/trackback''] True world0))) = new" "length new = 1"
      "\<forall>c \<in> set new. template c = ''controller.py_tmpl''"
    using f c0 by auto
  have "map (\<lambda>c. (template c, dest c, filename c))
     (copies (calls (snd (ControllerCommand_command cext0 (caching_import [])
        [''admin/trackback''] True world0)))) =
     [(''controller.py_tmpl'', ''controllers/admin'', ''trackback'')]"
    by (simp add: controller_eval)
  then show ?thesis using f n by simp
qed


lemma validate_name_fst:
  "name \<noteq> [] \<Longrightarrow>
   fst (validate_name imp name w) =
     (case fst (imp name (py w)) of
        Loaded m \<Rightarrow> Inl (BadCommand (collision_message name))
      | NoModule msg \<Rightarrow> Inr True
      | Broken cls msg \<Rightarrow> Inl (PyError cls msg))"
proof -
  assume n: "name \<noteq> []"
  obtain r w1 where p: "py_import imp name w = (r, w1)" by (cases "py_import imp name w")
  then have r: "fst (imp name (py w)) = r" using py_import_fst [of imp name w] by simp
  show ?thesis using n p r by (cases r) (simp_all add: validate_name_def)
qed


lemma render_fst:
  "fst (render ext no_test name directory w) =
     (case copy_file_raises ext (controller_copy ext name directory) of
        Some e \<Rightarrow> Inl e
      | None \<Rightarrow>
          if no_test then Inr ()
          else (case copy_file_raises ext (test_copy ext name directory) of
                  Some e \<Rightarrow> Inl e
                | None \<Rightarrow> Inr ()))"
  by (simp add: render_def and_then_cases copy_file_fst split: option.splits sum.splits)

lemma render_copies:
  "copies (calls (snd (render ext no_test name directory w))) =
     copies (calls w) @
       (case copy_file_raises ext (controller_copy ext name directory) of
          Some e \<Rightarrow> [controller_copy ext name directory]
        | None \<Rightarrow>
            if no_test then [controller_copy ext name directory]
            else [controller_copy ext name directory, test_copy ext name directory])"
  by (simp add: render_def and_then_cases copy_file_fst copy_file_calls copies_append
      split: option.splits sum.splits)





lemma testname_of_flat:
  "testname_of directory name =
     replace_char os_sep CHR ''_''
       (if startswith (os_path_join directory name) os_sep
        then drop 1 (os_path_join directory name)
        else os_path_join directory name)"
  by (simp add: testname_of_def Let_def replace_char_def drop_map)

text \<open>
  C2. For the argument \<^verbatim>\<open>admin/trackback\<close>, parsed into the name \<^verbatim>\<open>trackback\<close> and the
  directory \<^verbatim>\<open>admin\<close>, with a name that is not importable and copies that do not
  raise, the command succeeds, renders the controller template to \<^verbatim>\<open>controllers/admin\<close>
  with the file name \<^verbatim>\<open>trackback\<close> and, unless \<^verbatim>\<open>--no-test\<close> is given, the test
  template to \<^verbatim>\<open>tests/functional\<close> with the file name \<^verbatim>\<open>test_admin_trackback\<close>. In
  general the flattened name is the joined path without its leading separator, with
  every separator left replaced by an underscore.
\<close>

theorem admin_trackback_rendered:
  assumes "new_FileOp ext = None"
    and "parse_path_name_args ext ''admin/trackback'' = Inr (''trackback'', ''admin'')"
    and "fst (imp ''trackback'' (py w)) = NoModule msg"
    and "\<forall>c. copy_file_raises ext c = None"
  shows "fst (ControllerCommand_command ext imp [''admin/trackback''] no_test w) = Inr () \<and>
    map (\<lambda>c. (template c, dest c, filename c))
      (copies (calls (snd (ControllerCommand_command ext imp [''admin/trackback''] no_test w)))) =
    map (\<lambda>c. (template c, dest c, filename c)) (copies (calls w)) @
      [(''controller.py_tmpl'', ''controllers/admin'', ''trackback'')] @
      (if no_test then []
       else [(''test_controller.py_tmpl'', ''tests/functional'', ''test_admin_trackback'')]) \<and>
    (\<forall>directory name. testname_of directory name =
       replace_char os_sep CHR ''_''
         (if startswith (os_path_join directory name) os_sep
          then drop 1 (os_path_join directory name)
          else os_path_join directory name))"
proof -
  let ?args = "[''admin/trackback'']"
  have r: "replace_char CHR ''-'' CHR ''_'' ''trackback'' = ''trackback''"
    by (simp add: replace_char_def)
  have p: "new_FileOp ext = None \<and> parse_args ext ?args = Inr (''trackback'', ''admin'') \<and> True"
    using assms(1,2) by (simp add: parse_args_def args0_def)
  have v: "fst (validate_name imp ''trackback'' w) = Inr True"
    using assms(3) by (simp add: validate_name_fst)
  let ?w1 = "snd (validate_name imp ''trackback'' w)"
  have t: "ControllerCommand_try ext imp ?args no_test w =
      render ext no_test ''trackback'' ''admin'' ?w1"
    using p v r by (simp add: ControllerCommand_try_def Let_def and_then_cases)
  have f: "fst (ControllerCommand_command ext imp ?args no_test w) = Inr ()"
    using assms(4) by (simp add: command_fst t render_fst)
  have c1: "(\<lambda>c. (template c, dest c, filename c)) (controller_copy ext ''trackback'' ''admin'') =
      (''controller.py_tmpl'', ''controllers/admin'', ''trackback'')"
    by (simp add: controller_copy_def os_path_join_def startswith_def endswith_def os_sep_def)
  have c2: "(\<lambda>c. (template c, dest c, filename c)) (test_copy ext ''trackback'' ''admin'') =
      (''test_controller.py_tmpl'', ''tests/functional'', ''test_admin_trackback'')"
    by (simp add: test_copy_def testname_of_def replace_char_def os_path_join_def startswith_def
        endswith_def os_sep_def)
  have c: "copies (calls (snd (ControllerCommand_command ext imp ?args no_test w))) =
      copies (calls w) @
        (if no_test then [controller_copy ext ''trackback'' ''admin'']
         else [controller_copy ext ''trackback'' ''admin'', test_copy ext ''trackback'' ''admin''])"
    using assms(4) by (simp add: command_snd t render_copies validate_name_copies)
  show ?thesis
    using f c1 c2 by (simp add: c testname_of_flat)
qed

theorem admin_trackback_rendered_witness:
  "fst (ControllerCommand_command cext0 (caching_import []) [''admin/trackback''] False world0) = Inr () \<and>
   map (\<lambda>c. (template c, dest c, filename c))
     (copies (calls (snd (ControllerCommand_command cext0 (caching_import [])
        [''admin/trackback''] False world0)))) =
     [(''controller.py_tmpl'', ''controllers/admin'', ''trackback''),
      (''test_controller.py_tmpl'', ''tests/functional'', ''test_admin_trackback'')]"
proof -
  have 1: "new_FileOp cext0 = None" by (simp add: cext0_def)
  have 2: "parse_path_name_args cext0 ''admin/trackback'' = Inr (''trackback'', ''admin'')"
    by (simp add: cext0_def parse0_def os_path_join_def startswith_def)
  have 3: "fst (caching_import [] ''trackback'' (py world0)) = NoModule ''No module named trackback''"
    by (simp add: caching_import_def world0_def interp0_def)
  have 4: "\<forall>c. copy_file_raises cext0 c = None" by (simp add: cext0_def)
  have 5: "copies (calls world0) = []" by (simp add: world0_def)
  from admin_trackback_rendered
    [of cext0 "caching_import []" world0 "''No module named trackback''" False] 1 2 3 4 5
  show ?thesis by simp
qed

section \<open>Properties of the shell command\<close>

text \<open>
  C6. With no argument and no file \<^verbatim>\<open>development.ini\<close>, the shell command raises the
  usage error BadCommand and leaves the world as it found it: no configuration is
  loaded or pushed, nothing is imported, no collaborator is called, whatever the
  importer and the other collaborators would have done.
\<close>

theorem shell_without_config_fails_first:
  assumes "\<not> isfile ext ''development.ini''"
  shows "ShellCommand_command ext imp [] w =
      (Inl (BadCommand (get_usage ext @
          ''Error: CONFIG_FILE not found at: ./development.ini\<newline>Please specify a CONFIG_FILE'')),
       w)"
  using assms by (simp add: ShellCommand_command_def ShellCommand_config_file_def os_sep_def)

theorem shell_without_config_fails_first_witness:
  "ShellCommand_command sext0 (caching_import project_modules) [] world0 =
      (Inl (BadCommand (''usage: paster shell [CONFIG_FILE]\<newline>'' @
          ''Error: CONFIG_FILE not found at: ./development.ini\<newline>Please specify a CONFIG_FILE'')),
       world0) \<and>
   calls world0 = [] \<and> CONFIG world0 = []"
proof -
  have "\<not> isfile sext0 ''development.ini''" by (simp add: sext0_def)
  from shell_without_config_fails_first [OF this, of "caching_import project_modules" world0]
  show ?thesis by (simp add: sext0_def world0_def)
qed

lemma and_then_InrE:
  assumes "and_then r f = (Inr y, w')"
  obtains x w1 where "r = (Inr x, w1)" and "f x w1 = (Inr y, w')"
  using assms by (cases r) (auto simp: and_then_def split: sum.splits)

lemma and_then_inv:
  assumes "P (snd r)" and "\<And>x w1. P w1 \<Longrightarrow> P (snd (f x w1))"
  shows "P (snd (and_then r f))"
  using assms by (cases r) (auto simp: and_then_def split: sum.splits)

lemma import_or_raise_pylons_g: "pylons_g (snd (import_or_raise imp name w)) = pylons_g w"
proof -
  obtain r w1 where p: "py_import imp name w = (r, w1)" by (cases "py_import imp name w")
  then have "pylons_g w1 = pylons_g w" using py_import_frame(2) [of imp name w] by simp
  then show ?thesis using p by (cases r) (simp_all add: import_or_raise_def)
qed

lemma import_all_pylons_g: "pylons_g (snd (import_all imp packs w)) = pylons_g w"
proof (induction packs arbitrary: w)
  case Nil
  then show ?case by simp
next
  case (Cons pack packs)
  show ?case
    unfolding import_all.simps
    by (rule and_then_inv [where P = "\<lambda>v. pylons_g v = pylons_g w"])
      (simp_all add: import_or_raise_pylons_g Cons.IH del: import_all.simps)
qed

lemma sys_modules_get_snd: "snd (sys_modules_get name w) = w"
  by (simp add: sys_modules_get_def split: option.splits)

lemma and_then_pylons_g:
  assumes "pylons_g (snd r) = G" and "\<And>x w1. pylons_g w1 = G \<Longrightarrow> pylons_g (snd (f x w1)) = G"
  shows "pylons_g (snd (and_then r f)) = G"
  using assms by (cases r) (auto simp: and_then_def split: sum.splits)

lemma load_pylons_g: "pylons_g (snd (ShellCommand_load ext imp cf w)) = pylons_g w"
  unfolding ShellCommand_load_def Let_def
  by (intro and_then_pylons_g)
    (simp_all add: log_call_def import_all_pylons_g sys_modules_get_snd probe_g_def
      del: import_all.simps split: sum.splits prod.splits)

lemma load_objs:
  assumes "ShellCommand_load ext imp cf w = (Inr objs, w1)"
  shows "test_app objs = TestApp (wsgiapp objs) \<and>
     global_obj objs = (case get_root_g ext (test_app objs) of Inl e \<Rightarrow> PyNone | Inr g \<Rightarrow> g)"
  using assms unfolding ShellCommand_load_def Let_def
  apply (elim and_then_InrE)
  apply (auto simp: probe_g_def split: sum.splits prod.splits)
  done


lemma namespace_result:
  assumes "ShellCommand_namespace objs w1 = (Inr locs, w2)"
  shows "fst ` set locs =
      {''__name__'', ''model'', ''mapper'', ''wsgiapp'', ''app'', ''h''} \<union>
      (if truthy (global_obj objs) then {''g''} else {}) \<and>
    map_of locs ''g'' = (if truthy (global_obj objs) then Some (global_obj objs) else None) \<and>
    pylons_g w2 =
      (if truthy (global_obj objs) then global_obj objs # pylons_g w1 else pylons_g w1)"
  using assms unfolding ShellCommand_namespace_def Let_def
  apply (elim and_then_InrE)
  apply (auto simp: sys_modules_get_def split: option.splits if_splits)
  done

lemma namespace_fail_pylons_g:
  "fst (ShellCommand_namespace objs w1) = Inl e \<Longrightarrow>
   pylons_g (snd (ShellCommand_namespace objs w1)) = pylons_g w1"
  by (auto simp: ShellCommand_namespace_def Let_def and_then_def sys_modules_get_def
      split: option.splits if_splits)

lemma py_import_pylons_g: "py_import imp name w = (r, w1) \<Longrightarrow> pylons_g w1 = pylons_g w"
  using py_import_frame(2) [of imp name w] by simp

lemma console_pylons_g:
  "pylons_g (snd (ShellCommand_console imp locs banner w)) = pylons_g w"
  by (auto simp: ShellCommand_console_def and_then_def import_or_raise_def
      split: prod.splits import_result.splits sum.splits dest: py_import_pylons_g)
    (metis py_import_pylons_g)+

lemma console_launched:
  "fst (ShellCommand_console imp locs banner w) = Inr () \<Longrightarrow>
   \<exists>c. console (snd (ShellCommand_console imp locs banner w)) = Some c \<and> console_locs c = locs"
  by (auto simp: ShellCommand_console_def and_then_def import_or_raise_def
      split: prod.splits import_result.splits sum.splits)


lemma command_stages:
  assumes "ShellCommand_config_file ext args = Inr cf"
    and "ShellCommand_load ext imp cf w = (Inr objs, w1)"
    and "ShellCommand_namespace objs w1 = (Inr locs, w2)"
  shows "ShellCommand_command ext imp args w =
      ShellCommand_console imp locs (ShellCommand_banner ext objs) w2"
  using assms by (simp add: ShellCommand_command_def and_then_def)

lemma load_probe_swallowed:
  "ShellCommand_load (ext\<lparr>get_root_g := (\<lambda>a. Inl e)\<rparr>) imp cf w =
   ShellCommand_load (ext\<lparr>get_root_g := (\<lambda>a. Inr PyNone)\<rparr>) imp cf w"
  by (simp add: ShellCommand_load_def probe_g_def)

lemma probe_swallowed:
  "ShellCommand_command (ext\<lparr>get_root_g := (\<lambda>a. Inl e)\<rparr>) imp args w =
   ShellCommand_command (ext\<lparr>get_root_g := (\<lambda>a. Inr PyNone)\<rparr>) imp args w"
proof -
  have c: "\<And>f. ShellCommand_config_file (ext\<lparr>get_root_g := f\<rparr>) args =
      ShellCommand_config_file ext args"
    by (simp add: ShellCommand_config_file_def)
  have b: "\<And>f objs. ShellCommand_banner (ext\<lparr>get_root_g := f\<rparr>) objs =
      ShellCommand_banner ext objs"
    by (simp add: ShellCommand_banner_def)
  show ?thesis
    unfolding ShellCommand_command_def c b load_probe_swallowed ..
qed

lemma global_obj_truthy:
  assumes "ShellCommand_load ext imp cf w = (Inr objs, w1)"
  shows "truthy (global_obj objs) \<longleftrightarrow> (\<exists>g. get_root_g ext (test_app objs) = Inr g \<and> truthy g)"
  using load_objs [OF assms] by (cases "get_root_g ext (test_app objs)") simp_all

text \<open>
  C3. When the shell command gets as far as the namespace (the configuration file is
  found, the loading succeeds and the namespace is assembled), the namespace holds the
  keys \<^verbatim>\<open>model\<close>, \<^verbatim>\<open>mapper\<close>, \<^verbatim>\<open>h\<close>, \<^verbatim>\<open>wsgiapp\<close> and \<^verbatim>\<open>app\<close>; it holds
  \<^verbatim>\<open>g\<close> exactly when the GET of the root path succeeds and gives a truthy object; the
  console that is started gets this namespace; and a probe that raises is swallowed:
  the whole command goes as if the probe had found nothing.
\<close>

theorem shell_namespace_keys:
  assumes cf: "ShellCommand_config_file ext args = Inr cf"
    and ld: "ShellCommand_load ext imp cf w = (Inr objs, w1)"
    and ns: "ShellCommand_namespace objs w1 = (Inr locs, w2)"
  shows "{''model'', ''mapper'', ''h'', ''wsgiapp'', ''app''} \<subseteq> fst ` set locs \<and>
     (''g'' \<in> fst ` set locs \<longleftrightarrow> (\<exists>g. get_root_g ext (test_app objs) = Inr g \<and> truthy g)) \<and>
     (fst (ShellCommand_command ext imp args w) = Inr () \<longrightarrow>
        (\<exists>c. console (snd (ShellCommand_command ext imp args w)) = Some c \<and>
             console_locs c = locs)) \<and>
     (\<forall>e. ShellCommand_command (ext\<lparr>get_root_g := (\<lambda>a. Inl e)\<rparr>) imp args w =
          ShellCommand_command (ext\<lparr>get_root_g := (\<lambda>a. Inr PyNone)\<rparr>) imp args w)"
proof (intro conjI)
  note r = namespace_result [OF ns]
  show "{''model'', ''mapper'', ''h'', ''wsgiapp'', ''app''} \<subseteq> fst ` set locs"
    using r by (simp split: if_splits)
  have "''g'' \<in> fst ` set locs \<longleftrightarrow> truthy (global_obj objs)"
    using r by (simp split: if_splits)
  then show "''g'' \<in> fst ` set locs \<longleftrightarrow>
      (\<exists>g. get_root_g ext (test_app objs) = Inr g \<and> truthy g)"
    using global_obj_truthy [OF ld] by simp
  show "fst (ShellCommand_command ext imp args w) = Inr () \<longrightarrow>
        (\<exists>c. console (snd (ShellCommand_command ext imp args w)) = Some c \<and>
             console_locs c = locs)"
    unfolding command_stages [OF cf ld ns] using console_launched by blast
  show "\<forall>e. ShellCommand_command (ext\<lparr>get_root_g := (\<lambda>a. Inl e)\<rparr>) imp args w =
          ShellCommand_command (ext\<lparr>get_root_g := (\<lambda>a. Inr PyNone)\<rparr>) imp args w"
    using probe_swallowed by blast
qed

text \<open>
  C10. When the namespace is assembled and the probe gave a truthy object, that object
  is bound as \<^verbatim>\<open>g\<close> and is pushed on the \<^verbatim>\<open>pylons.g\<close> stack; when the probe raised or
  gave a falsy object, \<^verbatim>\<open>g\<close> is not bound and the stack is as before. A command whose
  probe cannot give a truthy object leaves the stack unchanged however far it gets.
\<close>

theorem shell_pushes_truthy_g:
  "(ShellCommand_config_file ext args = Inr cf \<and>
    ShellCommand_load ext imp cf w = (Inr objs, w1) \<and>
    ShellCommand_namespace objs w1 = (Inr locs, w2) \<longrightarrow>
      (case get_root_g ext (test_app objs) of
         Inr g \<Rightarrow>
           if truthy g then
             map_of locs ''g'' = Some g \<and>
             pylons_g (snd (ShellCommand_command ext imp args w)) = g # pylons_g w
           else
             map_of locs ''g'' = None \<and>
             pylons_g (snd (ShellCommand_command ext imp args w)) = pylons_g w
       | Inl e \<Rightarrow>
           map_of locs ''g'' = None \<and>
           pylons_g (snd (ShellCommand_command ext imp args w)) = pylons_g w)) \<and>
   ((\<forall>app g. get_root_g ext app = Inr g \<longrightarrow> \<not> truthy g) \<longrightarrow>
      pylons_g (snd (ShellCommand_command ext imp args w)) = pylons_g w)"
proof (intro conjI impI)
  assume a: "ShellCommand_config_file ext args = Inr cf \<and>
    ShellCommand_load ext imp cf w = (Inr objs, w1) \<and>
    ShellCommand_namespace objs w1 = (Inr locs, w2)"
  then have cf: "ShellCommand_config_file ext args = Inr cf"
    and ld: "ShellCommand_load ext imp cf w = (Inr objs, w1)"
    and ns: "ShellCommand_namespace objs w1 = (Inr locs, w2)" by simp_all
  have w1: "pylons_g w1 = pylons_g w" using load_pylons_g [of ext imp cf w] ld by simp
  have c: "pylons_g (snd (ShellCommand_command ext imp args w)) = pylons_g w2"
    unfolding command_stages [OF cf ld ns] by (rule console_pylons_g)
  show "case get_root_g ext (test_app objs) of
         Inr g \<Rightarrow>
           if truthy g then
             map_of locs ''g'' = Some g \<and>
             pylons_g (snd (ShellCommand_command ext imp args w)) = g # pylons_g w
           else
             map_of locs ''g'' = None \<and>
             pylons_g (snd (ShellCommand_command ext imp args w)) = pylons_g w
       | Inl e \<Rightarrow>
           map_of locs ''g'' = None \<and>
           pylons_g (snd (ShellCommand_command ext imp args w)) = pylons_g w"
    using namespace_result [OF ns] load_objs [OF ld] w1 c
    by (cases "get_root_g ext (test_app objs)") simp_all
next
  assume n: "\<forall>app g. get_root_g ext app = Inr g \<longrightarrow> \<not> truthy g"
  show "pylons_g (snd (ShellCommand_command ext imp args w)) = pylons_g w"
  proof (cases "ShellCommand_config_file ext args")
    case (Inl e)
    then show ?thesis by (simp add: ShellCommand_command_def)
  next
    case (Inr cf)
    obtain r w1 where ld: "ShellCommand_load ext imp cf w = (r, w1)"
      by (cases "ShellCommand_load ext imp cf w")
    have w1: "pylons_g w1 = pylons_g w" using load_pylons_g [of ext imp cf w] ld by simp
    show ?thesis
    proof (cases r)
      case (Inl e)
      then show ?thesis using Inr ld w1 by (simp add: ShellCommand_command_def and_then_def)
    next
      case objs: (Inr objs)
      have nt: "\<not> truthy (global_obj objs)"
        using global_obj_truthy [of ext imp cf w objs w1] ld objs n by simp
      obtain r2 w2 where ns: "ShellCommand_namespace objs w1 = (r2, w2)"
        by (cases "ShellCommand_namespace objs w1")
      show ?thesis
      proof (cases r2)
        case (Inl e)
        then have "pylons_g w2 = pylons_g w1"
          using namespace_fail_pylons_g [of objs w1 e] ns by simp
        then show ?thesis
          using Inr ld objs ns Inl w1 by (simp add: ShellCommand_command_def and_then_def)
      next
        case locs: (Inr locs)
        have "pylons_g w2 = pylons_g w1"
          using namespace_result [of objs w1 locs w2] ns locs nt by simp
        moreover have "pylons_g (snd (ShellCommand_command ext imp args w)) = pylons_g w2"
          using command_stages [of ext args cf imp w objs w1 locs w2] Inr ld objs ns locs
          by (simp add: console_pylons_g)
        ultimately show ?thesis using w1 by simp
      qed
    qed
  qed
qed


lemmas shell_eval =
  ShellCommand_command_def ShellCommand_config_file_def args0_def ShellCommand_load_def
  ShellCommand_namespace_def ShellCommand_console_def and_then_def log_call_def sext0_def
  project_modules_def caching_import_def py_import_def import_or_raise_def sys_modules_get_def
  probe_g_def world0_def interp0_def lower_def lower_char_def os_sep_def Let_def

theorem shell_namespace_keys_witness:
  "fst (ShellCommand_command sext0 (caching_import project_modules) [''development.ini''] world0)
     = Inr () \<and>
   (\<exists>c. console (snd (ShellCommand_command sext0 (caching_import project_modules)
            [''development.ini''] world0)) = Some c \<and>
        {''model'', ''mapper'', ''h'', ''wsgiapp'', ''app'', ''g''} \<subseteq> fst ` set (console_locs c))"
proof -
  let ?imp = "caching_import project_modules"
  have cf: "ShellCommand_config_file sext0 [''development.ini''] = Inr ''development.ini''"
    by (simp add: ShellCommand_config_file_def args0_def)
  have "\<exists>objs w1 locs w2.
      ShellCommand_load sext0 ?imp ''development.ini'' world0 = (Inr objs, w1) \<and>
      ShellCommand_namespace objs w1 = (Inr locs, w2) \<and>
      get_root_g sext0 (test_app objs) = Inr (PyObj ''g'' True)"
    by (simp add: shell_eval)
  then obtain objs w1 locs w2 where
    ld: "ShellCommand_load sext0 ?imp ''development.ini'' world0 = (Inr objs, w1)" and
    ns: "ShellCommand_namespace objs w1 = (Inr locs, w2)" and
    g: "get_root_g sext0 (test_app objs) = Inr (PyObj ''g'' True)"
    by blast
  have f: "fst (ShellCommand_command sext0 ?imp [''development.ini''] world0) = Inr ()"
    by (simp add: shell_eval)
  from shell_namespace_keys [OF cf ld ns] g f show ?thesis by auto
qed

theorem shell_pushes_truthy_g_witness:
  "pylons_g world0 = [] \<and>
   pylons_g (snd (ShellCommand_command sext0 (caching_import project_modules)
      [''development.ini''] world0)) = [PyObj ''g'' True] \<and>
   pylons_g (snd (ShellCommand_command
      (sext0\<lparr>get_root_g := (\<lambda>a. Inl (PyError ''AppError'' ''Bad response: 404''))\<rparr>)
      (caching_import project_modules) [''development.ini''] world0)) = []"
proof -
  let ?imp = "caching_import project_modules"
  let ?ext = "sext0\<lparr>get_root_g := (\<lambda>a. Inl (PyError ''AppError'' ''Bad response: 404''))\<rparr>"
  have cf: "ShellCommand_config_file sext0 [''development.ini''] = Inr ''development.ini''"
    by (simp add: ShellCommand_config_file_def args0_def)
  have "\<exists>objs w1 locs w2.
      ShellCommand_load sext0 ?imp ''development.ini'' world0 = (Inr objs, w1) \<and>
      ShellCommand_namespace objs w1 = (Inr locs, w2) \<and>
      get_root_g sext0 (test_app objs) = Inr (PyObj ''g'' True)"
    by (simp add: shell_eval)
  then obtain objs w1 locs w2 where
    s: "ShellCommand_config_file sext0 [''development.ini''] = Inr ''development.ini'' \<and>
        ShellCommand_load sext0 ?imp ''development.ini'' world0 = (Inr objs, w1) \<and>
        ShellCommand_namespace objs w1 = (Inr locs, w2)" and
    g: "get_root_g sext0 (test_app objs) = Inr (PyObj ''g'' True)"
    using cf by blast
  have n: "\<forall>app g. get_root_g ?ext app = Inr g \<longrightarrow> \<not> truthy g" by simp
  have 0: "pylons_g world0 = []" by (simp add: world0_def)
  from shell_pushes_truthy_g
    [of sext0 "[''development.ini'']" "''development.ini''" ?imp world0 objs w1 locs w2] s g
  have 1: "pylons_g (snd (ShellCommand_command sext0 ?imp [''development.ini''] world0)) =
      PyObj ''g'' True # pylons_g world0"
    by simp
  from shell_pushes_truthy_g [of ?ext "[''development.ini'']" _ ?imp world0] n
  have 2: "pylons_g (snd (ShellCommand_command ?ext ?imp [''development.ini''] world0)) =
      pylons_g world0"
    by blast
  show ?thesis using 0 1 2 by simp
qed

section \<open>Properties of the consoles\<close>

text \<open>
  C9. In both consoles the overriding \<^verbatim>\<open>raw_input\<close> passes the parent's behaviour
  through: a line the parent returns is returned, an EOFError of the parent is raised
  as EOFError, and any other exception is raised as it is; the override and the parent
  agree on the value returned and on whether the input has ended.
\<close>

theorem raw_input_pass_through:
  "(\<forall>line. parent a = Inr line \<longrightarrow>
      CustomIPShell_raw_input parent a = Inr line \<and> CustomShell_raw_input parent a = Inr line) \<and>
   (\<forall>m. parent a = Inl (EOFError m) \<longrightarrow>
      (\<exists>m'. CustomIPShell_raw_input parent a = Inl (EOFError m')) \<and>
      (\<exists>m'. CustomShell_raw_input parent a = Inl (EOFError m'))) \<and>
   (\<forall>e. parent a = Inl e \<and> \<not> is_EOFError e \<longrightarrow>
      CustomIPShell_raw_input parent a = Inl e \<and> CustomShell_raw_input parent a = Inl e) \<and>
   map_sum is_EOFError id (CustomIPShell_raw_input parent a) = map_sum is_EOFError id (parent a) \<and>
   map_sum is_EOFError id (CustomShell_raw_input parent a) = map_sum is_EOFError id (parent a)"
proof (cases "parent a")
  case (Inl e)
  then show ?thesis
    by (cases e) (simp_all add: CustomIPShell_raw_input_def CustomShell_raw_input_def)
next
  case (Inr line)
  then show ?thesis
    by (simp add: CustomIPShell_raw_input_def CustomShell_raw_input_def)
qed

theorem raw_input_pass_through_witness:
  "CustomIPShell_raw_input (\<lambda>p. if p = ''>>> '' then Inr ''print 1'' else Inl (EOFError ''EOF when reading a line'')) ''>>> '' = Inr ''print 1'' \<and>
   CustomShell_raw_input (\<lambda>p. if p = ''>>> '' then Inr ''print 1'' else Inl (EOFError ''EOF when reading a line'')) ''>>> '' = Inr ''print 1'' \<and>
   (\<exists>m'. CustomIPShell_raw_input (\<lambda>p. if p = ''>>> '' then Inr ''print 1'' else Inl (EOFError ''EOF when reading a line'')) ''... '' = Inl (EOFError m')) \<and>
   (\<exists>m'. CustomShell_raw_input (\<lambda>p. if p = ''>>> '' then Inr ''print 1'' else Inl (EOFError ''EOF when reading a line'')) ''... '' = Inl (EOFError m'))"
  using raw_input_pass_through [of "\<lambda>p. if p = ''>>> '' then Inr ''print 1'' else Inl (EOFError ''EOF when reading a line'')" "''>>> ''"]
    raw_input_pass_through [of "\<lambda>p. if p = ''>>> '' then Inr ''print 1'' else Inl (EOFError ''EOF when reading a line'')" "''... ''"]
  by simp

end
